theory Spec2Isabelle
  imports Main "HOL-Library.Sublist"
begin

section \<open>The process environment\<close>

text \<open>
  The script reads its whole configuration with \<^verbatim>\<open>os.getenv\<close>. The environment
  (after \<^verbatim>\<open>load_dotenv()\<close> has merged the .env file into it) is a partial map from
  variable names to values. \<^verbatim>\<open>os.getenv(k)\<close> gives \<^verbatim>\<open>None\<close> for an unset variable,
  \<^verbatim>\<open>os.getenv(k, d)\<close> gives \<^verbatim>\<open>d\<close>.
\<close>

type_synonym environ = "string \<rightharpoonup> string"

definition getenv :: "environ \<Rightarrow> string \<Rightarrow> string option" where
  "getenv env k = env k"

definition getenv_default :: "environ \<Rightarrow> string \<Rightarrow> string \<Rightarrow> string" where
  "getenv_default env k d = (case env k of None \<Rightarrow> d | Some v \<Rightarrow> v)"

text \<open>
  Python's truth value of an \<^verbatim>\<open>Optional[str]\<close>: \<^verbatim>\<open>None\<close> and the empty string are
  false, every other string is true. This is what \<^verbatim>\<open>if not api_key\<close> and
  \<^verbatim>\<open>all([...])\<close> test.
\<close>

fun truthy :: "string option \<Rightarrow> bool" where
  "truthy None = False"
| "truthy (Some v) = (v \<noteq> [])"

section \<open>Exceptions\<close>

text \<open>
  The exceptions of the script: \<^verbatim>\<open>ValueError(msg)\<close> is the only class
  \<^verbatim>\<open>create_llm\<close> raises, \<^verbatim>\<open>sys.exit(1)\<close> raises \<^verbatim>\<open>SystemExit(1)\<close>, and the
  libraries the script calls (tool discovery, the agent) may raise anything else;
  \<open>LibraryException cls msg\<close> stands for an instance of a subclass \<open>cls\<close> of
  \<^verbatim>\<open>Exception\<close> whose \<^verbatim>\<open>str()\<close> is \<open>msg\<close>.
\<close>

datatype exception =
    ValueError string
  | SystemExit int
  | LibraryException string string

text \<open>\<^verbatim>\<open>isinstance(e, Exception)\<close>: \<^verbatim>\<open>SystemExit\<close> derives from \<^verbatim>\<open>BaseException\<close> only.\<close>

fun is_Exception :: "exception \<Rightarrow> bool" where
  "is_Exception (ValueError m) = True"
| "is_Exception (SystemExit n) = False"
| "is_Exception (LibraryException c m) = True"

section \<open>Model handles and \<^verbatim>\<open>create_llm\<close>\<close>

text \<open>
  The three chat-model classes, with the keyword arguments the script passes to each
  constructor. The temperature is the Python integer the script writes.
\<close>

datatype llm =
    ChatOpenAI (model: string) (temperature: int) (openai_api_key: string)
  | AzureChatOpenAI (azure_endpoint: string) (azure_deployment: string)
      (api_version: string) (api_key: string) (temperature: int)
  | ChatAnthropic (model: string) (anthropic_api_key: string) (temperature: int)

definition unknown_provider_message :: "string \<Rightarrow> string" where
  "unknown_provider_message provider =
     ''Unknown provider: '' @ provider @ ''. Use 'openai', 'azure', or 'claude'' @ [CHR 0x27]"

definition azure_required_message :: string where
  "azure_required_message =
     ''AZURE_OPENAI_API_KEY, AZURE_OPENAI_ENDPOINT, and '' @
     ''AZURE_OPENAI_DEPLOYMENT_NAME are required for Azure''"

definition create_llm :: "environ \<Rightarrow> string \<Rightarrow> exception + llm" where
  "create_llm env provider =
     (if provider = ''openai'' then
        (let api_key = getenv env ''OPENAI_API_KEY'' in
         if \<not> truthy api_key then
           Inl (ValueError ''OPENAI_API_KEY environment variable is required'')
         else
           Inr (ChatOpenAI
                  (getenv_default env ''OPENAI_MODEL'' ''gpt-4o-mini'')
                  0
                  (the api_key)))
      else if provider = ''azure'' then
        (let api_key = getenv env ''AZURE_OPENAI_API_KEY'';
             endpoint = getenv env ''AZURE_OPENAI_ENDPOINT'';
             deployment = getenv env ''AZURE_OPENAI_DEPLOYMENT_NAME'' in
         if \<not> list_all truthy [api_key, endpoint, deployment] then
           Inl (ValueError azure_required_message)
         else
           Inr (AzureChatOpenAI
                  (the endpoint)
                  (the deployment)
                  (getenv_default env ''AZURE_OPENAI_API_VERSION'' ''2024-02-15-preview'')
                  (the api_key)
                  0))
      else if provider = ''claude'' then
        (let api_key = getenv env ''ANTHROPIC_API_KEY'' in
         if \<not> truthy api_key then
           Inl (ValueError ''ANTHROPIC_API_KEY environment variable is required'')
         else
           Inr (ChatAnthropic
                  (getenv_default env ''ANTHROPIC_MODEL'' ''claude-3-5-sonnet-20241022'')
                  (the api_key)
                  0))
      else
        Inl (ValueError (unknown_provider_message provider)))"

section \<open>Strings\<close>

text \<open>
  Strings are byte strings: an ASCII character is one \<^typ>\<open>char\<close>, and the pictographs
  the script prints are written as their UTF-8 bytes. \<^verbatim>\<open>str.lower\<close> and
  \<^verbatim>\<open>str.upper\<close> are modelled on ASCII letters, where Python maps \<^verbatim>\<open>A-Z\<close> to
  \<^verbatim>\<open>a-z\<close> and back; every other byte is left as it is.
\<close>

definition lower_char :: "char \<Rightarrow> char" where
  "lower_char c =
     (let n = (of_char c :: nat) in if 65 \<le> n \<and> n \<le> 90 then char_of (n + 32) else c)"

definition upper_char :: "char \<Rightarrow> char" where
  "upper_char c =
     (let n = (of_char c :: nat) in if 97 \<le> n \<and> n \<le> 122 then char_of (n - 32) else c)"

definition lower :: "string \<Rightarrow> string" where
  "lower s = map lower_char s"

definition upper :: "string \<Rightarrow> string" where
  "upper s = map upper_char s"

text \<open>\<^verbatim>\<open>sep.join(xs)\<close>.\<close>

fun join :: "string \<Rightarrow> string list \<Rightarrow> string" where
  "join sep [] = []"
| "join sep [x] = x"
| "join sep (x # y # ys) = x @ sep @ join sep (y # ys)"

text \<open>\<^verbatim>\<open>str(n)\<close> of a natural number (a \<^verbatim>\<open>len\<close> or a loop index), in decimal.\<close>

function str_nat :: "nat \<Rightarrow> string" where
  "str_nat n =
     (if n < 10 then [char_of (48 + n)]
      else str_nat (n div 10) @ [char_of (48 + n mod 10)])"
  by pat_completeness auto
termination
  by (relation "measure (\<lambda>n. n)") auto

declare str_nat.simps [simp del]

definition str_int :: "int \<Rightarrow> string" where
  "str_int i = (if i < 0 then ''-'' @ str_nat (nat (- i)) else str_nat (nat i))"

text \<open>\<^verbatim>\<open>str(e)\<close>, what the f-string \<^verbatim>\<open>{e}\<close> prints.\<close>

fun str_exception :: "exception \<Rightarrow> string" where
  "str_exception (ValueError m) = m"
| "str_exception (SystemExit n) = str_int n"
| "str_exception (LibraryException c m) = m"

text \<open>The pictographs of the script's messages, as UTF-8.\<close>

definition cross_mark :: string where
  "cross_mark = [CHR 0xE2, CHR 0x9D, CHR 0x8C]"

definition rocket :: string where
  "rocket = [CHR 0xF0, CHR 0x9F, CHR 0x9A, CHR 0x80]"

definition arrows :: string where
  "arrows = [CHR 0xF0, CHR 0x9F, CHR 0x94, CHR 0x84]"

definition check_mark :: string where
  "check_mark = [CHR 0xE2, CHR 0x9C, CHR 0x85]"

definition magnifier :: string where
  "magnifier = [CHR 0xF0, CHR 0x9F, CHR 0x94, CHR 0x8D]"

definition memo :: string where
  "memo = [CHR 0xF0, CHR 0x9F, CHR 0x93, CHR 0x9D]"

definition robot :: string where
  "robot = [CHR 0xF0, CHR 0x9F, CHR 0xA4, CHR 0x96]"

definition bar_chart :: string where
  "bar_chart = [CHR 0xF0, CHR 0x9F, CHR 0x93, CHR 0x8A]"

definition wrench :: string where
  "wrench = [CHR 0xF0, CHR 0x9F, CHR 0x94, CHR 0xA7]"

definition speech_balloon :: string where
  "speech_balloon = [CHR 0xF0, CHR 0x9F, CHR 0x92, CHR 0xAC]"

definition light_bulb :: string where
  "light_bulb = [CHR 0xF0, CHR 0x9F, CHR 0x92, CHR 0xA1]"

section \<open>The libraries' objects\<close>

text \<open>
  What the script builds and reads of the objects of \<^verbatim>\<open>langchain\<close> and
  \<^verbatim>\<open>langchain_mcp_adapters\<close>. A tool is read through its \<^verbatim>\<open>name\<close> only. The client
  is built from a dictionary of connections. An agent is the triple handed to
  \<^verbatim>\<open>create_agent\<close>. A request is the pair of dictionaries handed to
  \<^verbatim>\<open>agent.ainvoke\<close>: the message list and the \<^verbatim>\<open>thread_id\<close>.
\<close>

datatype tool = Tool (tool_name: string)

datatype connection =
  Connection (transport: string) (url: string) (headers: "(string \<times> string) list")

datatype client = MultiServerMCPClient "(string \<times> connection) list"

datatype agent = Agent (agent_model: llm) (agent_tools: "tool list") (agent_system_prompt: string)

datatype chat_message = ChatMessage (role: string) (message_content: string)

datatype request = Request (request_messages: "chat_message list") (thread_id: string)

text \<open>
  The response of \<^verbatim>\<open>ainvoke\<close> is a dictionary. The script looks for its key
  \<^verbatim>\<open>"messages"\<close> (\<open>None\<close>: no such key) and otherwise prints it whole
  (\<open>response_str\<close>). Of a message it probes the attributes \<^verbatim>\<open>tool_calls\<close> and
  \<^verbatim>\<open>content\<close> (\<open>None\<close>: no such attribute), and falls back to \<^verbatim>\<open>str(msg)\<close>.
  Of a tool call it reads \<^verbatim>\<open>tc.get('name', 'unknown')\<close>.
\<close>

datatype tool_call = ToolCall (tc_name: "string option")

datatype message =
  Message (tool_calls: "tool_call list option") (content: "string option") (message_str: string)

datatype response = Response (messages: "message list option") (response_str: string)

section \<open>Observable events\<close>

text \<open>
  A run is observed as the sequence of its effects: a line printed on standard output,
  a traceback printed on standard error, and the two network-bound calls, tool
  discovery (\<^verbatim>\<open>client.get_tools()\<close>) and the agent invocation
  (\<^verbatim>\<open>agent.ainvoke\<close>, which drives the model and the tools).
\<close>

datatype event =
    Print string
  | PrintExc exception
  | GetTools client
  | AInvoke agent request

fun is_network :: "event \<Rightarrow> bool" where
  "is_network (GetTools c) = True"
| "is_network (AInvoke a r) = True"
| "is_network e = False"

definition network_calls :: "event list \<Rightarrow> event list" where
  "network_calls es = filter is_network es"

text \<open>The tracebacks printed by \<^verbatim>\<open>traceback.print_exc()\<close>, in order.\<close>

fun tracebacks :: "event list \<Rightarrow> exception list" where
  "tracebacks [] = []"
| "tracebacks (PrintExc e # es) = e # tracebacks es"
| "tracebacks (e # es) = tracebacks es"

text \<open>\<^verbatim>\<open>type(e).__name__\<close>, the class of an exception, and of what a call raised.\<close>

fun exception_class :: "exception \<Rightarrow> string" where
  "exception_class (ValueError m) = ''ValueError''"
| "exception_class (SystemExit n) = ''SystemExit''"
| "exception_class (LibraryException c m) = c"

fun raised_class :: "exception + 'a \<Rightarrow> string option" where
  "raised_class (Inl e) = Some (exception_class e)"
| "raised_class (Inr v) = None"

section \<open>The driver\<close>

text \<open>The fixed instruction text handed to \<^verbatim>\<open>create_agent\<close>.\<close>

definition system_prompt :: string where
  \<open>system_prompt =
     ''You are a helpful assistant with access to the Program Integrity Alliance (PIA) database.\<newline>'' @
     ''\<newline>'' @
     ''IMPORTANT INSTRUCTIONS:\<newline>'' @
     ''1. You MUST use the available tools to search the database for every query\<newline>'' @
     ''2. When you receive tool results, READ THE ENTIRE JSON response carefully\<newline>'' @
     ''3. The tool returns a JSON object with "output" containing "results" and "citations"\<newline>'' @
     ''4. ALWAYS summarize what you found from the tool results\<newline>'' @
     ''5. If tool results show documents, describe them to the user\<newline>'' @
     ''6. Include specific details like titles, agencies, and dates from the results\<newline>'' @
     ''7. Never say "no results" if the tool returned data with a positive total_count\<newline>'' @
     ''\<newline>'' @
     ''Use the available tools to search for government audit recommendations, reports, and integrity data.''\<close>

text \<open>
  \<^verbatim>\<open>create_agent(model=llm, tools=tools, system_prompt=...)\<close> builds the agent object;
  it performs no call of its own.
\<close>

definition create_agent :: "llm \<Rightarrow> tool list \<Rightarrow> string \<Rightarrow> agent" where
  "create_agent m ts p = Agent m ts p"

text \<open>The configuration read at the start of \<^verbatim>\<open>main\<close>.\<close>

definition mcp_url :: "environ \<Rightarrow> string" where
  "mcp_url env = getenv_default env ''PIA_MCP_URL'' ''https://mcp.programintegrity.org''"

definition mcp_api_key :: "environ \<Rightarrow> string option" where
  "mcp_api_key env = getenv env ''PIA_API_KEY''"

definition llm_provider :: "environ \<Rightarrow> string" where
  "llm_provider env = lower (getenv_default env ''LLM_PROVIDER'' ''openai'')"

text \<open>The client object for the remote server: one connection, named \<^verbatim>\<open>pia\<close>.\<close>

definition make_client :: "string \<Rightarrow> string \<Rightarrow> client" where
  "make_client u k =
     MultiServerMCPClient
       [(''pia'', Connection ''streamable_http'' u [(''x-api-key'', k)])]"

text \<open>
  The example query, and its replacement by the command line: \<^verbatim>\<open>sys.argv\<close> holds the
  script's name first, so the arguments are \<^verbatim>\<open>sys.argv[1:]\<close>. The result is the
  lines printed and the list \<^verbatim>\<open>queries\<close>.
\<close>

definition select_queries :: "string list \<Rightarrow> event list \<times> string list" where
  "select_queries argv =
     (let queries = [''Search for fraud recommendations from GAO''] in
      if length argv > 1 then
        (let custom_query = join '' '' (drop 1 argv) in
         ([Print (magnifier @ '' Running custom query: '' @ custom_query), Print []],
          [custom_query]))
      else
        ([Print (magnifier @ '' Running example query...''),
          Print ''   (You can also pass a custom query as a command-line argument)'',
          Print []],
         queries))"

text \<open>The two dictionaries handed to \<^verbatim>\<open>agent.ainvoke\<close> for one query.\<close>

definition make_request :: "string \<Rightarrow> request" where
  "make_request query = Request [ChatMessage ''user'' query] ''1''"

text \<open>The display of one response (the body of the \<^verbatim>\<open>try\<close> after the call).\<close>

definition show_tool_calls :: "message \<Rightarrow> event list" where
  "show_tool_calls msg =
     (case tool_calls msg of
        None \<Rightarrow> []
      | Some tcs \<Rightarrow>
          if tcs = [] then []
          else
            Print (''   '' @ wrench @ '' Tool calls made: '' @ str_nat (length tcs)) #
            map (\<lambda>tc. Print (''      - '' @
                    (case tc_name tc of None \<Rightarrow> ''unknown'' | Some n \<Rightarrow> n))) tcs)"

definition display_response :: "response \<Rightarrow> event list" where
  "display_response r =
     Print [] #
     (case messages r of
        Some msgs \<Rightarrow>
          Print (bar_chart @ '' Agent executed '' @ str_nat (length msgs) @ '' steps'') #
          concat (map show_tool_calls msgs) @
          (if msgs \<noteq> [] then
             (let last_message = last msgs;
                  c = (case content last_message of
                         Some t \<Rightarrow> t
                       | None \<Rightarrow> message_str last_message) in
              [Print [], Print (speech_balloon @ '' Agent Response:''), Print c])
           else
             [Print (speech_balloon @ '' Agent Response: (no messages)'')])
      | None \<Rightarrow>
          [Print (speech_balloon @ '' Agent Response:''), Print (response_str r)])"

text \<open>
  The loop over \<^verbatim>\<open>enumerate(queries, 1)\<close>. The agent is a library object with a
  state of its own (\<open>'s\<close>): \<open>ainvoke s a r\<close> is the outcome of the call in state \<open>s\<close>
  (a response, or an exception raised) and the state after it. \<^verbatim>\<open>except Exception\<close>
  catches the instances of \<^verbatim>\<open>Exception\<close>; anything else leaves the loop and
  \<^verbatim>\<open>main\<close>.
\<close>

fun run_queries ::
  "('s \<Rightarrow> agent \<Rightarrow> request \<Rightarrow> (exception + response) \<times> 's) \<Rightarrow> agent \<Rightarrow>
   nat \<Rightarrow> string list \<Rightarrow> 's \<Rightarrow> event list \<times> (exception + unit)" where
  "run_queries ainvoke a i [] s = ([], Inr ())"
| "run_queries ainvoke a i (query # rest) s =
     (let head_lines =
            [Print (replicate 80 CHR ''=''),
             Print [],
             Print (memo @ '' Query '' @ str_nat i @ '': '' @ query),
             Print (replicate 80 CHR ''-''),
             Print [],
             Print (robot @ '' Agent processing query...''),
             AInvoke a (make_request query)];
          (outcome, s') = ainvoke s a (make_request query) in
      case outcome of
        Inr response \<Rightarrow>
          (let (es, r) = run_queries ainvoke a (Suc i) rest s' in
           (head_lines @ display_response response @ [Print []] @ es, r))
      | Inl e \<Rightarrow>
          if is_Exception e then
            (let (es, r) = run_queries ainvoke a (Suc i) rest s' in
             (head_lines @
              [Print (cross_mark @ '' Error: '' @ str_exception e), PrintExc e] @
              [Print []] @ es, r))
          else (head_lines, Inl e))"

text \<open>
  \<^verbatim>\<open>main\<close>. \<open>get_tools\<close> is the outcome of \<^verbatim>\<open>client.get_tools()\<close>, the remote tool
  discovery: the tools, or an exception raised. The result is the events of the run and
  how \<^verbatim>\<open>main\<close> ends: it returns, or an exception leaves it.
\<close>

definition main ::
  "environ \<Rightarrow> string list \<Rightarrow> (client \<Rightarrow> exception + tool list) \<Rightarrow>
   ('s \<Rightarrow> agent \<Rightarrow> request \<Rightarrow> (exception + response) \<times> 's) \<Rightarrow> 's \<Rightarrow>
   event list \<times> (exception + unit)" where
  "main env argv get_tools ainvoke s =
     (if \<not> truthy (mcp_api_key env) then
        ([Print (cross_mark @ '' Error: PIA_API_KEY environment variable is required''),
          Print ''   Get an API key from: https://mcp.programintegrity.org/register''],
         Inl (SystemExit 1))
      else
        (let client = make_client (mcp_url env) (the (mcp_api_key env));
             es1 =
               [Print (rocket @ '' Starting LangChain MCP Example''),
                Print (''   MCP Server: '' @ mcp_url env),
                Print (''   LLM Provider: '' @ llm_provider env),
                Print [],
                Print (arrows @ '' Connecting to PIA MCP Server...''),
                Print (check_mark @ '' Connected to MCP server''),
                Print [],
                Print (arrows @ '' Fetching available tools...''),
                GetTools client] in
         case get_tools client of
           Inl e \<Rightarrow> (es1, Inl e)
         | Inr tools \<Rightarrow>
             (let es2 =
                    [Print (check_mark @ '' Retrieved '' @ str_nat (length tools) @ '' tools:'')] @
                    map (\<lambda>t. Print (''   - '' @ tool_name t)) tools @
                    [Print [],
                     Print (arrows @ '' Initializing '' @ upper (llm_provider env) @ '' LLM...'')] in
              case create_llm env (llm_provider env) of
                Inl e \<Rightarrow> (es1 @ es2, Inl e)
              | Inr llm \<Rightarrow>
                  (let es3 =
                         [Print (check_mark @ '' LLM initialized''),
                          Print [],
                          Print (arrows @ '' Creating agent with MCP tools...'')];
                       a = create_agent llm tools system_prompt;
                       es4 = [Print (check_mark @ '' Agent created''), Print []];
                       (es5, queries) = select_queries argv;
                       (es6, r) = run_queries ainvoke a 1 queries s in
                   case r of
                     Inl e \<Rightarrow> (es1 @ es2 @ es3 @ es4 @ es5 @ es6, Inl e)
                   | Inr u \<Rightarrow>
                       (es1 @ es2 @ es3 @ es4 @ es5 @ es6 @
                        [Print (check_mark @ '' Example complete!''),
                         Print [],
                         Print (light_bulb @ '' Tips:''),
                         Print ''   - Pass your own query as a command-line argument'',
                         Print ''   - Modify the script to build more complex agent workflows'',
                         Print ''   - Check the README.md for more information''],
                        Inr ())))))"

text \<open>
  The script itself, \<^verbatim>\<open>asyncio.run(main())\<close> under \<^verbatim>\<open>__main__\<close>, and the exit status
  of the interpreter: 0 when \<^verbatim>\<open>main\<close> returns, the code of a \<^verbatim>\<open>SystemExit\<close>, and 1
  after the traceback of any other exception that nothing caught.
\<close>

fun exit_status :: "exception + unit \<Rightarrow> int" where
  "exit_status (Inr u) = 0"
| "exit_status (Inl (SystemExit n)) = n"
| "exit_status (Inl e) = 1"

definition script ::
  "environ \<Rightarrow> string list \<Rightarrow> (client \<Rightarrow> exception + tool list) \<Rightarrow>
   ('s \<Rightarrow> agent \<Rightarrow> request \<Rightarrow> (exception + response) \<times> 's) \<Rightarrow> 's \<Rightarrow>
   event list \<times> int" where
  "script env argv get_tools ainvoke s =
     (let (es, r) = main env argv get_tools ainvoke s in
      (case r of
         Inr u \<Rightarrow> es
       | Inl (SystemExit n) \<Rightarrow> es
       | Inl e \<Rightarrow> es @ [PrintExc e],
       exit_status r))"

section \<open>Notions used in the statements\<close>



text \<open>The provider identities \<^verbatim>\<open>create_llm\<close> has a branch for, in the order of its branches.\<close>

definition supported_providers :: "string list" where
  "supported_providers = [''openai'', ''azure'', ''claude'']"




section \<open>Facts about the events of a run\<close>

lemma network_calls_append: "network_calls (xs @ ys) = network_calls xs @ network_calls ys"
  by (simp add: network_calls_def)

lemma network_calls_show_tool_calls: "network_calls (show_tool_calls m) = []"
  by (simp add: network_calls_def show_tool_calls_def split: option.splits)

lemma network_calls_display_response: "network_calls (display_response r) = []"
  using network_calls_show_tool_calls
  by (simp add: network_calls_def display_response_def Let_def filter_concat split: option.splits)







lemma network_calls_select_queries: "network_calls (fst (select_queries argv)) = []"
  by (simp add: network_calls_def select_queries_def Let_def)


lemma run_queries_single:
  "network_calls (fst (run_queries ainvoke a i [q] s)) = [AInvoke a (make_request q)]"
  using network_calls_display_response
  by (simp add: network_calls_def case_prod_beta Let_def split: sum.splits)

lemma main_no_key:
  assumes "\<not> truthy (mcp_api_key env)"
  shows "snd (main env argv get_tools ainvoke s) = Inl (SystemExit 1)"
    and "network_calls (fst (main env argv get_tools ainvoke s)) = []"
    and "tracebacks (fst (main env argv get_tools ainvoke s)) = []"
  using assms by (simp_all add: main_def network_calls_def)

lemma main_discovery_fails:
  assumes "truthy (mcp_api_key env)"
    and "get_tools (make_client (mcp_url env) (the (mcp_api_key env))) = Inl e"
  shows "snd (main env argv get_tools ainvoke s) = Inl e"
    and "network_calls (fst (main env argv get_tools ainvoke s)) =
           [GetTools (make_client (mcp_url env) (the (mcp_api_key env)))]"
  using assms by (simp_all add: main_def network_calls_def Let_def)

lemma main_llm_fails:
  assumes "truthy (mcp_api_key env)"
    and "get_tools (make_client (mcp_url env) (the (mcp_api_key env))) = Inr tools"
    and "create_llm env (llm_provider env) = Inl e"
  shows "snd (main env argv get_tools ainvoke s) = Inl e"
    and "network_calls (fst (main env argv get_tools ainvoke s)) =
           [GetTools (make_client (mcp_url env) (the (mcp_api_key env)))]"
  using assms by (simp_all add: main_def network_calls_def Let_def comp_def)

lemma main_runs:
  assumes "truthy (mcp_api_key env)"
    and "get_tools (make_client (mcp_url env) (the (mcp_api_key env))) = Inr tools"
    and "create_llm env (llm_provider env) = Inr m"
  shows "snd (main env argv get_tools ainvoke s) =
           snd (run_queries ainvoke (create_agent m tools system_prompt) 1
                  (snd (select_queries argv)) s)"
    and "network_calls (fst (main env argv get_tools ainvoke s)) =
           GetTools (make_client (mcp_url env) (the (mcp_api_key env))) #
           network_calls (fst (run_queries ainvoke (create_agent m tools system_prompt) 1
                  (snd (select_queries argv)) s))"
proof -
  let ?rq = "run_queries ainvoke (create_agent m tools system_prompt) 1 (snd (select_queries argv)) s"
  show "snd (main env argv get_tools ainvoke s) = snd ?rq"
    using assms by (cases "snd ?rq") (simp_all add: main_def Let_def case_prod_beta)
  show "network_calls (fst (main env argv get_tools ainvoke s)) =
           GetTools (make_client (mcp_url env) (the (mcp_api_key env))) # network_calls (fst ?rq)"
    using assms network_calls_select_queries[of argv]
    by (cases "snd ?rq") (simp_all add: main_def Let_def case_prod_beta network_calls_def comp_def)
qed




lemma lower_supported: "p \<in> set supported_providers \<Longrightarrow> lower p = p"
proof -
  have "lower ''openai'' = ''openai''" "lower ''azure'' = ''azure''" "lower ''claude'' = ''claude''"
    by code_simp+
  moreover assume "p \<in> set supported_providers"
  ultimately show ?thesis by (auto simp: supported_providers_def)
qed

lemma join_concat: "join sep (x # xs) = x @ concat (map (\<lambda>y. sep @ y) xs)"
  by (induction xs arbitrary: x) simp_all

lemma select_queries_snd:
  "snd (select_queries argv) =
     [if length argv > 1 then join '' '' (drop 1 argv)
      else ''Search for fraud recommendations from GAO'']"
  by (simp add: select_queries_def Let_def)

lemma create_llm_raises_ValueError:
  "create_llm env provider = Inl e \<Longrightarrow> \<exists>m. e = ValueError m"
  by (auto simp: create_llm_def Let_def split: if_splits)


lemma main_network_calls:
  assumes "truthy (mcp_api_key env)"
    and "get_tools (make_client (mcp_url env) (the (mcp_api_key env))) = Inr tools"
    and "create_llm env (llm_provider env) = Inr m"
  shows "network_calls (fst (main env argv get_tools ainvoke s)) =
           [GetTools (make_client (mcp_url env) (the (mcp_api_key env))),
            AInvoke (create_agent m tools system_prompt)
              (make_request (if length argv > 1 then join '' '' (drop 1 argv)
                             else ''Search for fraud recommendations from GAO''))]"
  using main_runs(2)[where get_tools = get_tools and ainvoke = ainvoke, OF assms, of argv s]
  by (simp only: select_queries_snd run_queries_single)

lemma main_starts_with_discovery:
  assumes "truthy (mcp_api_key env)"
  shows "\<exists>rest. network_calls (fst (main env argv get_tools ainvoke s)) =
           GetTools (make_client (mcp_url env) (the (mcp_api_key env))) # rest"
proof (cases "get_tools (make_client (mcp_url env) (the (mcp_api_key env)))")
  case (Inl e)
  show ?thesis by (simp add: main_discovery_fails(2)[where get_tools = get_tools, OF assms Inl])
next
  case (Inr tools)
  show ?thesis
  proof (cases "create_llm env (llm_provider env)")
    case (Inl e)
    show ?thesis by (simp add: main_llm_fails(2)[where get_tools = get_tools, OF assms Inr Inl])
  next
    case m: (Inr m)
    show ?thesis by (simp add: main_runs(2)[where get_tools = get_tools, OF assms Inr m])
  qed
qed

section \<open>The model factory\<close>

lemma sublist_openai:
  "sublist ''OPENAI_API_KEY'' ''OPENAI_API_KEY environment variable is required''"
  by code_simp

lemma sublist_anthropic:
  "sublist ''ANTHROPIC_API_KEY'' ''ANTHROPIC_API_KEY environment variable is required''"
  by code_simp

lemma sublist_azure:
  "sublist ''AZURE_OPENAI_API_KEY'' azure_required_message"
  "sublist ''AZURE_OPENAI_ENDPOINT'' azure_required_message"
  "sublist ''AZURE_OPENAI_DEPLOYMENT_NAME'' azure_required_message"
  by code_simp+

text \<open>
  Claim C1, as amended. For each of \<^verbatim>\<open>openai\<close>, \<^verbatim>\<open>azure\<close> and \<^verbatim>\<open>claude\<close>,
  \<^verbatim>\<open>create_llm\<close> returns a model handle when every required credential is set and
  not empty, and raises \<^verbatim>\<open>ValueError\<close> when one is unset or empty; the message
  contains the name of the missing credential (for \<^verbatim>\<open>azure\<close> it is one message that
  names all three settings, whichever is missing). For every other provider string it
  raises \<^verbatim>\<open>ValueError\<close> as well, the same class, with the message
  \<^verbatim>\<open>Unknown provider: ...\<close>, which is none of the missing-credential messages.
\<close>

theorem create_llm_outcomes:
  "(truthy (env ''OPENAI_API_KEY'') \<longrightarrow>
      create_llm env ''openai'' =
        Inr (ChatOpenAI (getenv_default env ''OPENAI_MODEL'' ''gpt-4o-mini'') 0
               (the (env ''OPENAI_API_KEY''))))
 \<and> (\<not> truthy (env ''OPENAI_API_KEY'') \<longrightarrow>
      create_llm env ''openai'' =
        Inl (ValueError ''OPENAI_API_KEY environment variable is required''))
 \<and> (truthy (env ''AZURE_OPENAI_API_KEY'') \<and> truthy (env ''AZURE_OPENAI_ENDPOINT'') \<and>
      truthy (env ''AZURE_OPENAI_DEPLOYMENT_NAME'') \<longrightarrow>
      create_llm env ''azure'' =
        Inr (AzureChatOpenAI (the (env ''AZURE_OPENAI_ENDPOINT''))
               (the (env ''AZURE_OPENAI_DEPLOYMENT_NAME''))
               (getenv_default env ''AZURE_OPENAI_API_VERSION'' ''2024-02-15-preview'')
               (the (env ''AZURE_OPENAI_API_KEY'')) 0))
 \<and> (\<not> truthy (env ''AZURE_OPENAI_API_KEY'') \<or> \<not> truthy (env ''AZURE_OPENAI_ENDPOINT'') \<or>
      \<not> truthy (env ''AZURE_OPENAI_DEPLOYMENT_NAME'') \<longrightarrow>
      create_llm env ''azure'' = Inl (ValueError azure_required_message))
 \<and> (truthy (env ''ANTHROPIC_API_KEY'') \<longrightarrow>
      create_llm env ''claude'' =
        Inr (ChatAnthropic (getenv_default env ''ANTHROPIC_MODEL'' ''claude-3-5-sonnet-20241022'')
               (the (env ''ANTHROPIC_API_KEY'')) 0))
 \<and> (\<not> truthy (env ''ANTHROPIC_API_KEY'') \<longrightarrow>
      create_llm env ''claude'' =
        Inl (ValueError ''ANTHROPIC_API_KEY environment variable is required''))
 \<and> (provider \<notin> set supported_providers \<longrightarrow>
      create_llm env provider = Inl (ValueError (unknown_provider_message provider)))
 \<and> sublist ''OPENAI_API_KEY'' ''OPENAI_API_KEY environment variable is required''
 \<and> sublist ''AZURE_OPENAI_API_KEY'' azure_required_message
 \<and> sublist ''AZURE_OPENAI_ENDPOINT'' azure_required_message
 \<and> sublist ''AZURE_OPENAI_DEPLOYMENT_NAME'' azure_required_message
 \<and> sublist ''ANTHROPIC_API_KEY'' ''ANTHROPIC_API_KEY environment variable is required''
 \<and> unknown_provider_message provider \<noteq> ''OPENAI_API_KEY environment variable is required''
 \<and> unknown_provider_message provider \<noteq> azure_required_message
 \<and> unknown_provider_message provider \<noteq> ''ANTHROPIC_API_KEY environment variable is required''"
proof -
  have 1: "create_llm env ''openai'' =
      (if truthy (env ''OPENAI_API_KEY'') then
         Inr (ChatOpenAI (getenv_default env ''OPENAI_MODEL'' ''gpt-4o-mini'') 0
               (the (env ''OPENAI_API_KEY'')))
       else Inl (ValueError ''OPENAI_API_KEY environment variable is required''))"
    by (simp add: create_llm_def getenv_def)
  have 2: "create_llm env ''azure'' =
      (if truthy (env ''AZURE_OPENAI_API_KEY'') \<and> truthy (env ''AZURE_OPENAI_ENDPOINT'') \<and>
          truthy (env ''AZURE_OPENAI_DEPLOYMENT_NAME'') then
        Inr (AzureChatOpenAI (the (env ''AZURE_OPENAI_ENDPOINT''))
               (the (env ''AZURE_OPENAI_DEPLOYMENT_NAME''))
               (getenv_default env ''AZURE_OPENAI_API_VERSION'' ''2024-02-15-preview'')
               (the (env ''AZURE_OPENAI_API_KEY'')) 0)
       else Inl (ValueError azure_required_message))"
    by (simp add: create_llm_def getenv_def)
  have 3: "create_llm env ''claude'' =
      (if truthy (env ''ANTHROPIC_API_KEY'') then
        Inr (ChatAnthropic (getenv_default env ''ANTHROPIC_MODEL'' ''claude-3-5-sonnet-20241022'')
               (the (env ''ANTHROPIC_API_KEY'')) 0)
       else Inl (ValueError ''ANTHROPIC_API_KEY environment variable is required''))"
    by (simp add: create_llm_def getenv_def)
  have 4: "provider \<notin> set supported_providers \<longrightarrow>
      create_llm env provider = Inl (ValueError (unknown_provider_message provider))"
    by (simp add: create_llm_def supported_providers_def)
  have 5: "unknown_provider_message provider \<noteq> ''OPENAI_API_KEY environment variable is required''"
    "unknown_provider_message provider \<noteq> azure_required_message"
    "unknown_provider_message provider \<noteq> ''ANTHROPIC_API_KEY environment variable is required''"
    by (simp_all add: unknown_provider_message_def azure_required_message_def)
  show ?thesis
    using 1 2 3 4 5 sublist_openai sublist_azure sublist_anthropic by simp
qed

text \<open>
  The theorem at two environments: one with every credential, one where the OpenAI key
  is set but empty and only one of the three Azure settings is present; and at the
  provider string \<^verbatim>\<open>OpenAI\<close>, which no branch matches.
\<close>

theorem create_llm_outcomes_witness:
  "create_llm [''OPENAI_API_KEY'' \<mapsto> ''sk-1'', ''AZURE_OPENAI_API_KEY'' \<mapsto> ''az-1'',
               ''AZURE_OPENAI_ENDPOINT'' \<mapsto> ''https://az.example'',
               ''AZURE_OPENAI_DEPLOYMENT_NAME'' \<mapsto> ''dep'',
               ''ANTHROPIC_API_KEY'' \<mapsto> ''an-1''] ''openai''
     = Inr (ChatOpenAI ''gpt-4o-mini'' 0 ''sk-1'')
 \<and> create_llm [''OPENAI_API_KEY'' \<mapsto> ''sk-1'', ''AZURE_OPENAI_API_KEY'' \<mapsto> ''az-1'',
               ''AZURE_OPENAI_ENDPOINT'' \<mapsto> ''https://az.example'',
               ''AZURE_OPENAI_DEPLOYMENT_NAME'' \<mapsto> ''dep'',
               ''ANTHROPIC_API_KEY'' \<mapsto> ''an-1''] ''azure''
     = Inr (AzureChatOpenAI ''https://az.example'' ''dep'' ''2024-02-15-preview'' ''az-1'' 0)
 \<and> create_llm [''OPENAI_API_KEY'' \<mapsto> ''sk-1'', ''AZURE_OPENAI_API_KEY'' \<mapsto> ''az-1'',
               ''AZURE_OPENAI_ENDPOINT'' \<mapsto> ''https://az.example'',
               ''AZURE_OPENAI_DEPLOYMENT_NAME'' \<mapsto> ''dep'',
               ''ANTHROPIC_API_KEY'' \<mapsto> ''an-1''] ''claude''
     = Inr (ChatAnthropic ''claude-3-5-sonnet-20241022'' ''an-1'' 0)
 \<and> create_llm [''AZURE_OPENAI_API_KEY'' \<mapsto> ''az-1'', ''OPENAI_API_KEY'' \<mapsto> []] ''openai''
     = Inl (ValueError ''OPENAI_API_KEY environment variable is required'')
 \<and> create_llm [''AZURE_OPENAI_API_KEY'' \<mapsto> ''az-1'', ''OPENAI_API_KEY'' \<mapsto> []] ''azure''
     = Inl (ValueError azure_required_message)
 \<and> create_llm [''AZURE_OPENAI_API_KEY'' \<mapsto> ''az-1'', ''OPENAI_API_KEY'' \<mapsto> []] ''claude''
     = Inl (ValueError ''ANTHROPIC_API_KEY environment variable is required'')
 \<and> ''OpenAI'' \<notin> set supported_providers
 \<and> create_llm [''AZURE_OPENAI_API_KEY'' \<mapsto> ''az-1'', ''OPENAI_API_KEY'' \<mapsto> []] ''OpenAI''
     = Inl (ValueError (unknown_provider_message ''OpenAI''))"
  using create_llm_outcomes
          [of "[''OPENAI_API_KEY'' \<mapsto> ''sk-1'', ''AZURE_OPENAI_API_KEY'' \<mapsto> ''az-1'',
               ''AZURE_OPENAI_ENDPOINT'' \<mapsto> ''https://az.example'',
               ''AZURE_OPENAI_DEPLOYMENT_NAME'' \<mapsto> ''dep'',
               ''ANTHROPIC_API_KEY'' \<mapsto> ''an-1'']" "''OpenAI''"]
        create_llm_outcomes
          [of "[''AZURE_OPENAI_API_KEY'' \<mapsto> ''az-1'', ''OPENAI_API_KEY'' \<mapsto> []]" "''OpenAI''"]
  by (simp add: getenv_default_def supported_providers_def)

text \<open>
  Claim C1 as stated asks for two kinds of failure, a configuration error and a distinct
  unsupported-provider error. An unknown provider and a missing credential raise the
  same class, \<^verbatim>\<open>ValueError\<close>.
\<close>

theorem create_llm_class_counterexample:
  "raised_class (create_llm Map.empty ''gemini'') = Some ''ValueError'' \<and>
   raised_class (create_llm Map.empty ''openai'') = Some ''ValueError''"
  by (simp add: create_llm_def getenv_def)

text \<open>
  Claim C5, as amended. Every handle \<^verbatim>\<open>create_llm\<close> returns, for any provider and any
  environment, has temperature 0: the value is written in the three constructor calls
  and no setting of the environment changes it.
\<close>

theorem create_llm_temperature:
  "create_llm env provider = Inr h \<Longrightarrow> temperature h = 0"
  by (auto simp: create_llm_def Let_def split: if_splits)

theorem create_llm_temperature_witness:
  "create_llm [''ANTHROPIC_API_KEY'' \<mapsto> ''an-1'', ''ANTHROPIC_TEMPERATURE'' \<mapsto> ''1''] ''claude''
     = Inr (ChatAnthropic ''claude-3-5-sonnet-20241022'' ''an-1'' 0)
 \<and> temperature (ChatAnthropic ''claude-3-5-sonnet-20241022'' ''an-1'' 0) = 0"
proof -
  have h: "create_llm [''ANTHROPIC_API_KEY'' \<mapsto> ''an-1'', ''ANTHROPIC_TEMPERATURE'' \<mapsto> ''1''] ''claude''
     = Inr (ChatAnthropic ''claude-3-5-sonnet-20241022'' ''an-1'' 0)"
    by (simp add: create_llm_def getenv_def getenv_default_def)
  from h create_llm_temperature [OF h] show ?thesis by (rule conjI)
qed

text \<open>
  Claim C5 as stated lets the operator override the temperature. With temperature
  variables set in the environment, the handle still has temperature 0.
\<close>

theorem temperature_override_counterexample:
  "create_llm [''OPENAI_API_KEY'' \<mapsto> ''sk-1'', ''TEMPERATURE'' \<mapsto> ''1'',
               ''OPENAI_TEMPERATURE'' \<mapsto> ''1'', ''LLM_TEMPERATURE'' \<mapsto> ''1''] ''openai''
     = Inr (ChatOpenAI ''gpt-4o-mini'' 0 ''sk-1'')"
  by (simp add: create_llm_def getenv_def getenv_default_def)

section \<open>More facts about the configuration\<close>

lemma script_exit:
  "snd (script env argv get_tools ainvoke s) = exit_status (snd (main env argv get_tools ainvoke s))"
  by (simp add: script_def case_prod_beta)

lemma llm_provider_default: "env ''LLM_PROVIDER'' = None \<Longrightarrow> llm_provider env = ''openai''"
  using lower_supported[of "''openai''"]
  by (simp add: llm_provider_def getenv_default_def supported_providers_def)



lemma in_network_calls: "AInvoke a r \<in> set es \<Longrightarrow> AInvoke a r \<in> set (network_calls es)"
  "GetTools c \<in> set es \<Longrightarrow> GetTools c \<in> set (network_calls es)"
  by (simp_all add: network_calls_def)

section \<open>More facts about the loop and the script\<close>




lemma script_events:
  "fst (script env argv get_tools ainvoke s) =
     fst (main env argv get_tools ainvoke s) @
     (case snd (main env argv get_tools ainvoke s) of
        Inr u \<Rightarrow> []
      | Inl (SystemExit n) \<Rightarrow> []
      | Inl e \<Rightarrow> [PrintExc e])"
  by (simp add: script_def case_prod_beta split: sum.splits exception.splits)


section \<open>The loop over the queries\<close>




section \<open>Exit status and the order of validation\<close>




text \<open>
  Claim C4, as amended. A missing or empty \<^verbatim>\<open>PIA_API_KEY\<close> is reported, the two lines of
  the message being the whole output, with exit status 1 and before any network-bound
  call. The settings of the selected provider are checked by \<^verbatim>\<open>create_llm\<close> only after
  tool discovery has succeeded: when discovery returns and the check fails, the run has
  made exactly the discovery call and ends with the uncaught \<^verbatim>\<open>ValueError\<close>, its
  traceback and exit status 1; when discovery itself raises, the run ends with that
  exception after that one call, whatever the provider settings are. Discovery happens
  only with the access credential present, and the agent is invoked only when the access
  credential is present, discovery has returned its tools and \<^verbatim>\<open>create_llm\<close> has
  returned a handle.
\<close>

theorem validation_and_network_order:
  "(\<not> truthy (mcp_api_key env) \<longrightarrow>
      fst (main env argv get_tools ainvoke s) =
        [Print (cross_mark @ '' Error: PIA_API_KEY environment variable is required''),
         Print ''   Get an API key from: https://mcp.programintegrity.org/register''] \<and>
      network_calls (fst (main env argv get_tools ainvoke s)) = [] \<and>
      snd (main env argv get_tools ainvoke s) = Inl (SystemExit 1) \<and>
      snd (script env argv get_tools ainvoke s) = 1)
 \<and> (truthy (mcp_api_key env) \<and>
      get_tools (make_client (mcp_url env) (the (mcp_api_key env))) = Inl e1 \<longrightarrow>
      network_calls (fst (main env argv get_tools ainvoke s)) =
        [GetTools (make_client (mcp_url env) (the (mcp_api_key env)))] \<and>
      snd (main env argv get_tools ainvoke s) = Inl e1)
 \<and> (truthy (mcp_api_key env) \<and>
      get_tools (make_client (mcp_url env) (the (mcp_api_key env))) = Inr tools \<and>
      create_llm env (llm_provider env) = Inl e \<longrightarrow>
      network_calls (fst (main env argv get_tools ainvoke s)) =
        [GetTools (make_client (mcp_url env) (the (mcp_api_key env)))] \<and>
      snd (main env argv get_tools ainvoke s) = Inl e \<and>
      fst (script env argv get_tools ainvoke s) =
        fst (main env argv get_tools ainvoke s) @ [PrintExc e] \<and>
      snd (script env argv get_tools ainvoke s) = 1)
 \<and> (GetTools c \<in> set (fst (main env argv get_tools ainvoke s)) \<longrightarrow>
      truthy (mcp_api_key env))
 \<and> (AInvoke a r \<in> set (fst (main env argv get_tools ainvoke s)) \<longrightarrow>
      truthy (mcp_api_key env) \<and>
      (\<exists>ts m. get_tools (make_client (mcp_url env) (the (mcp_api_key env))) = Inr ts \<and>
              create_llm env (llm_provider env) = Inr m))"
proof -
  have v0: "\<not> truthy (mcp_api_key env) \<longrightarrow>
      fst (main env argv get_tools ainvoke s) =
        [Print (cross_mark @ '' Error: PIA_API_KEY environment variable is required''),
         Print ''   Get an API key from: https://mcp.programintegrity.org/register''] \<and>
      network_calls (fst (main env argv get_tools ainvoke s)) = [] \<and>
      snd (main env argv get_tools ainvoke s) = Inl (SystemExit 1) \<and>
      snd (script env argv get_tools ainvoke s) = 1"
    by (simp add: main_def network_calls_def script_exit)
  have v1: "truthy (mcp_api_key env) \<and>
      get_tools (make_client (mcp_url env) (the (mcp_api_key env))) = Inl e1 \<longrightarrow>
      network_calls (fst (main env argv get_tools ainvoke s)) =
        [GetTools (make_client (mcp_url env) (the (mcp_api_key env)))] \<and>
      snd (main env argv get_tools ainvoke s) = Inl e1"
    by (simp add: main_discovery_fails[where get_tools = get_tools])
  have v2: "truthy (mcp_api_key env) \<and>
      get_tools (make_client (mcp_url env) (the (mcp_api_key env))) = Inr tools \<and>
      create_llm env (llm_provider env) = Inl e \<longrightarrow>
      network_calls (fst (main env argv get_tools ainvoke s)) =
        [GetTools (make_client (mcp_url env) (the (mcp_api_key env)))] \<and>
      snd (main env argv get_tools ainvoke s) = Inl e \<and>
      fst (script env argv get_tools ainvoke s) =
        fst (main env argv get_tools ainvoke s) @ [PrintExc e] \<and>
      snd (script env argv get_tools ainvoke s) = 1"
    using create_llm_raises_ValueError[of env "llm_provider env" e]
    by (auto simp: main_llm_fails[where get_tools = get_tools] script_exit script_events)
  have v3: "GetTools c \<in> set (fst (main env argv get_tools ainvoke s)) \<longrightarrow>
      truthy (mcp_api_key env)"
  proof
    assume "GetTools c \<in> set (fst (main env argv get_tools ainvoke s))"
    then have "GetTools c \<in> set (network_calls (fst (main env argv get_tools ainvoke s)))"
      by (rule in_network_calls)
    then show "truthy (mcp_api_key env)"
      by (cases "truthy (mcp_api_key env)") (simp_all add: main_no_key(2))
  qed
  have v4: "AInvoke a r \<in> set (fst (main env argv get_tools ainvoke s)) \<longrightarrow>
      truthy (mcp_api_key env) \<and>
      (\<exists>ts m. get_tools (make_client (mcp_url env) (the (mcp_api_key env))) = Inr ts \<and>
              create_llm env (llm_provider env) = Inr m)"
  proof
    assume "AInvoke a r \<in> set (fst (main env argv get_tools ainvoke s))"
    then have n: "AInvoke a r \<in> set (network_calls (fst (main env argv get_tools ainvoke s)))"
      by (rule in_network_calls)
    then have k: "truthy (mcp_api_key env)"
      by (cases "truthy (mcp_api_key env)") (simp_all add: main_no_key(2))
    have "\<exists>ts m. get_tools (make_client (mcp_url env) (the (mcp_api_key env))) = Inr ts \<and>
              create_llm env (llm_provider env) = Inr m"
    proof (cases "get_tools (make_client (mcp_url env) (the (mcp_api_key env)))")
      case (Inl x)
      with n k show ?thesis
        by (simp add: main_discovery_fails(2)[where get_tools = get_tools])
    next
      case (Inr ts)
      show ?thesis
      proof (cases "create_llm env (llm_provider env)")
        case (Inl x)
        with n k Inr show ?thesis
          by (simp add: main_llm_fails(2)[where get_tools = get_tools])
      next
        case m: (Inr m)
        with Inr show ?thesis by simp
      qed
    qed
    with k show "truthy (mcp_api_key env) \<and>
      (\<exists>ts m. get_tools (make_client (mcp_url env) (the (mcp_api_key env))) = Inr ts \<and>
              create_llm env (llm_provider env) = Inr m)"
      by simp
  qed
  show ?thesis
    by (intro conjI v0 v1 v2 v3 v4)
qed

text \<open>
  The theorem at four runs: no access credential; an unknown provider with discovery
  failing; the access credential without the provider's key; a complete configuration,
  in which the agent is invoked.
\<close>

theorem validation_and_network_order_witness:
  "fst (main Map.empty [''prog''] (\<lambda>c. Inr [])
      (\<lambda>(s::unit) a r. (Inr (Response None ''ok''), s)) ()) =
     [Print (cross_mark @ '' Error: PIA_API_KEY environment variable is required''),
      Print ''   Get an API key from: https://mcp.programintegrity.org/register'']
 \<and> network_calls (fst (main Map.empty [''prog''] (\<lambda>c. Inr [])
      (\<lambda>(s::unit) a r. (Inr (Response None ''ok''), s)) ())) = []
 \<and> snd (script Map.empty [''prog''] (\<lambda>c. Inr [])
      (\<lambda>(s::unit) a r. (Inr (Response None ''ok''), s)) ()) = 1
 \<and> network_calls (fst (main [''PIA_API_KEY'' \<mapsto> ''k'', ''LLM_PROVIDER'' \<mapsto> ''gemini'']
      [''prog''] (\<lambda>c. Inl (LibraryException ''ConnectionError'' ''unreachable''))
      (\<lambda>(s::unit) a r. (Inr (Response None ''ok''), s)) ())) =
     [GetTools (make_client ''https://mcp.programintegrity.org'' ''k'')]
 \<and> snd (main [''PIA_API_KEY'' \<mapsto> ''k'', ''LLM_PROVIDER'' \<mapsto> ''gemini'']
      [''prog''] (\<lambda>c. Inl (LibraryException ''ConnectionError'' ''unreachable''))
      (\<lambda>(s::unit) a r. (Inr (Response None ''ok''), s)) ()) =
     Inl (LibraryException ''ConnectionError'' ''unreachable'')
 \<and> network_calls (fst (main [''PIA_API_KEY'' \<mapsto> ''k'', ''PIA_MCP_URL'' \<mapsto> ''https://tools.example'']
      [''prog''] (\<lambda>c. Inr [])
      (\<lambda>(s::unit) a r. (Inr (Response None ''ok''), s)) ())) =
     [GetTools (make_client ''https://tools.example'' ''k'')]
 \<and> snd (main [''PIA_API_KEY'' \<mapsto> ''k'', ''PIA_MCP_URL'' \<mapsto> ''https://tools.example'']
      [''prog''] (\<lambda>c. Inr [])
      (\<lambda>(s::unit) a r. (Inr (Response None ''ok''), s)) ()) =
     Inl (ValueError ''OPENAI_API_KEY environment variable is required'')
 \<and> fst (script [''PIA_API_KEY'' \<mapsto> ''k'', ''PIA_MCP_URL'' \<mapsto> ''https://tools.example'']
      [''prog''] (\<lambda>c. Inr [])
      (\<lambda>(s::unit) a r. (Inr (Response None ''ok''), s)) ()) =
     fst (main [''PIA_API_KEY'' \<mapsto> ''k'', ''PIA_MCP_URL'' \<mapsto> ''https://tools.example'']
      [''prog''] (\<lambda>c. Inr [])
      (\<lambda>(s::unit) a r. (Inr (Response None ''ok''), s)) ()) @
     [PrintExc (ValueError ''OPENAI_API_KEY environment variable is required'')]
 \<and> snd (script [''PIA_API_KEY'' \<mapsto> ''k'', ''PIA_MCP_URL'' \<mapsto> ''https://tools.example'']
      [''prog''] (\<lambda>c. Inr [])
      (\<lambda>(s::unit) a r. (Inr (Response None ''ok''), s)) ()) = 1
 \<and> truthy (mcp_api_key [''PIA_API_KEY'' \<mapsto> ''k'', ''PIA_MCP_URL'' \<mapsto> ''https://tools.example''])
 \<and> truthy (mcp_api_key [''PIA_API_KEY'' \<mapsto> ''k'', ''OPENAI_API_KEY'' \<mapsto> ''sk-1''])
 \<and> (\<exists>ts m. (Inr [] :: exception + tool list) = Inr ts \<and>
       create_llm [''PIA_API_KEY'' \<mapsto> ''k'', ''OPENAI_API_KEY'' \<mapsto> ''sk-1'']
           (llm_provider [''PIA_API_KEY'' \<mapsto> ''k'', ''OPENAI_API_KEY'' \<mapsto> ''sk-1'']) = Inr m)"
proof -
  let ?ok = "\<lambda>(s::unit) (a::agent) (r::request). (Inr (Response None ''ok'') :: exception + response, s)"
  let ?gt = "\<lambda>c::client. Inr [] :: exception + tool list"
  let ?down = "\<lambda>c::client. Inl (LibraryException ''ConnectionError'' ''unreachable'') :: exception + tool list"
  let ?e0 = "[''PIA_API_KEY'' \<mapsto> ''k'', ''LLM_PROVIDER'' \<mapsto> ''gemini'']"
  let ?e1 = "[''PIA_API_KEY'' \<mapsto> ''k'', ''PIA_MCP_URL'' \<mapsto> ''https://tools.example'']"
  let ?e2 = "[''PIA_API_KEY'' \<mapsto> ''k'', ''OPENAI_API_KEY'' \<mapsto> ''sk-1'']"
  let ?a = "create_agent (ChatOpenAI ''gpt-4o-mini'' 0 ''sk-1'') [] system_prompt"
  let ?r = "make_request ''Search for fraud recommendations from GAO''"
  have a: "\<not> truthy (mcp_api_key Map.empty)"
    by (simp add: mcp_api_key_def getenv_def)
  have b: "truthy (mcp_api_key ?e0)" "truthy (mcp_api_key ?e1)" "truthy (mcp_api_key ?e2)"
    by (simp_all add: mcp_api_key_def getenv_def)
  have u0: "mcp_url ?e0 = ''https://mcp.programintegrity.org''" "the (mcp_api_key ?e0) = ''k''"
    by (simp_all add: mcp_url_def mcp_api_key_def getenv_def getenv_default_def)
  have u1: "mcp_url ?e1 = ''https://tools.example''" "the (mcp_api_key ?e1) = ''k''"
    by (simp_all add: mcp_url_def mcp_api_key_def getenv_def getenv_default_def)
  have c1: "create_llm ?e1 (llm_provider ?e1) =
             Inl (ValueError ''OPENAI_API_KEY environment variable is required'')"
    by (simp add: llm_provider_default create_llm_def getenv_def)
  have c2: "create_llm ?e2 (llm_provider ?e2) = Inr (ChatOpenAI ''gpt-4o-mini'' 0 ''sk-1'')"
    by (simp add: llm_provider_default create_llm_def getenv_def getenv_default_def)
  have "network_calls (fst (main ?e2 [''prog''] ?gt ?ok ())) =
          [GetTools (make_client (mcp_url ?e2) (the (mcp_api_key ?e2))), AInvoke ?a ?r]"
    using main_network_calls[where get_tools = ?gt and ainvoke = ?ok, OF b(3) _ c2, of "[]" "[''prog'']" "()"]
    by simp
  then have "AInvoke ?a ?r \<in> set (network_calls (fst (main ?e2 [''prog''] ?gt ?ok ())))"
    by simp
  then have i: "AInvoke ?a ?r \<in> set (fst (main ?e2 [''prog''] ?gt ?ok ()))"
    by (simp add: network_calls_def)
  from a validation_and_network_order[where env = Map.empty and argv = "[''prog'']"
      and get_tools = ?gt and ainvoke = ?ok and s = "()"]
  have 1: "fst (main Map.empty [''prog''] ?gt ?ok ()) =
     [Print (cross_mark @ '' Error: PIA_API_KEY environment variable is required''),
      Print ''   Get an API key from: https://mcp.programintegrity.org/register'']"
    "network_calls (fst (main Map.empty [''prog''] ?gt ?ok ())) = []"
    "snd (script Map.empty [''prog''] ?gt ?ok ()) = 1"
    by blast+
  from b(1) u0 validation_and_network_order[where env = ?e0 and argv = "[''prog'']"
      and get_tools = ?down and ainvoke = ?ok and s = "()"
      and ?e1.0 = "LibraryException ''ConnectionError'' ''unreachable''"]
  have 2: "network_calls (fst (main ?e0 [''prog''] ?down ?ok ())) =
             [GetTools (make_client ''https://mcp.programintegrity.org'' ''k'')]"
    "snd (main ?e0 [''prog''] ?down ?ok ()) = Inl (LibraryException ''ConnectionError'' ''unreachable'')"
    by simp_all
  from b(2) c1 u1 validation_and_network_order[where env = ?e1 and argv = "[''prog'']"
      and get_tools = ?gt and ainvoke = ?ok and s = "()" and tools = "[]"
      and e = "ValueError ''OPENAI_API_KEY environment variable is required''"]
  have 3: "network_calls (fst (main ?e1 [''prog''] ?gt ?ok ())) =
             [GetTools (make_client ''https://tools.example'' ''k'')]"
    "snd (main ?e1 [''prog''] ?gt ?ok ()) =
             Inl (ValueError ''OPENAI_API_KEY environment variable is required'')"
    "fst (script ?e1 [''prog''] ?gt ?ok ()) = fst (main ?e1 [''prog''] ?gt ?ok ()) @
       [PrintExc (ValueError ''OPENAI_API_KEY environment variable is required'')]"
    "snd (script ?e1 [''prog''] ?gt ?ok ()) = 1"
    by simp_all
  from i validation_and_network_order[where env = ?e2 and argv = "[''prog'']"
      and get_tools = ?gt and ainvoke = ?ok and s = "()" and a = ?a and r = ?r]
  have 4: "truthy (mcp_api_key ?e2) \<and>
      (\<exists>ts m. (Inr [] :: exception + tool list) = Inr ts \<and> create_llm ?e2 (llm_provider ?e2) = Inr m)"
    by blast
  from 3(1) have "GetTools (make_client ''https://tools.example'' ''k'') \<in>
      set (network_calls (fst (main ?e1 [''prog''] ?gt ?ok ())))"
    by simp
  then have j: "GetTools (make_client ''https://tools.example'' ''k'') \<in>
      set (fst (main ?e1 [''prog''] ?gt ?ok ()))"
    by (simp add: network_calls_def)
  from j validation_and_network_order[where env = ?e1 and argv = "[''prog'']"
      and get_tools = ?gt and ainvoke = ?ok and s = "()"
      and c = "make_client ''https://tools.example'' ''k''"]
  have 5: "truthy (mcp_api_key ?e1)"
    by blast
  from 1 2 3 4 5 show ?thesis by blast
qed

text \<open>
  Claim C4 as stated has every configuration failure reported before any network
  activity. With the provider \<^verbatim>\<open>claude\<close> selected and no \<^verbatim>\<open>ANTHROPIC_API_KEY\<close>, the run
  first performs tool discovery at the remote server and then fails.
\<close>

theorem provider_validation_counterexample:
  "network_calls (fst (main [''PIA_API_KEY'' \<mapsto> ''k'', ''LLM_PROVIDER'' \<mapsto> ''claude'']
      [''langchain_mcp_example.py''] (\<lambda>c. Inr [Tool ''search''])
      (\<lambda>(s::unit) a r. (Inr (Response None ''ok''), s)) ())) =
     [GetTools (MultiServerMCPClient
        [(''pia'', Connection ''streamable_http'' ''https://mcp.programintegrity.org''
                     [(''x-api-key'', ''k'')])])]
 \<and> snd (main [''PIA_API_KEY'' \<mapsto> ''k'', ''LLM_PROVIDER'' \<mapsto> ''claude'']
      [''langchain_mcp_example.py''] (\<lambda>c. Inr [Tool ''search''])
      (\<lambda>(s::unit) a r. (Inr (Response None ''ok''), s)) ()) =
     Inl (ValueError ''ANTHROPIC_API_KEY environment variable is required'')"
proof -
  let ?e = "[''PIA_API_KEY'' \<mapsto> ''k'', ''LLM_PROVIDER'' \<mapsto> ''claude'']"
  have b: "truthy (mcp_api_key ?e)"
    by (simp add: mcp_api_key_def getenv_def)
  have u: "make_client (mcp_url ?e) (the (mcp_api_key ?e)) =
      MultiServerMCPClient
        [(''pia'', Connection ''streamable_http'' ''https://mcp.programintegrity.org''
                     [(''x-api-key'', ''k'')])]"
    by (simp add: make_client_def mcp_url_def mcp_api_key_def getenv_def getenv_default_def)
  have p: "llm_provider ?e = ''claude''"
    using lower_supported[of "''claude''"]
    by (simp add: llm_provider_def getenv_default_def supported_providers_def)
  have c: "create_llm ?e (llm_provider ?e) =
             Inl (ValueError ''ANTHROPIC_API_KEY environment variable is required'')"
    unfolding p by (simp add: create_llm_def getenv_def)
  show ?thesis
    using b c u
    by (simp add: main_llm_fails[where get_tools = "\<lambda>c. Inr [Tool ''search'']" and tools = "[Tool ''search'']"])
qed

section \<open>The tool endpoint\<close>

text \<open>
  Claim C6, as amended. The tool-endpoint URL is optional: with \<^verbatim>\<open>PIA_MCP_URL\<close> unset the
  run uses \<^verbatim>\<open>https://mcp.programintegrity.org\<close>, and in either case, given the access
  credential, its first network-bound call is tool discovery at that URL. Only the access
  credential is required: without it the run prints the two lines of the message and
  exits with status 1.
\<close>

theorem mcp_url_default:
  "(truthy (env ''PIA_API_KEY'') \<longrightarrow>
      take 1 (network_calls (fst (main env argv get_tools ainvoke s))) =
        [GetTools (MultiServerMCPClient
           [(''pia'', Connection ''streamable_http''
                        (case env ''PIA_MCP_URL'' of
                           None \<Rightarrow> ''https://mcp.programintegrity.org''
                         | Some u \<Rightarrow> u)
                        [(''x-api-key'', the (env ''PIA_API_KEY''))])])])
 \<and> (\<not> truthy (env ''PIA_API_KEY'') \<longrightarrow>
      fst (script env argv get_tools ainvoke s) =
        [Print (cross_mark @ '' Error: PIA_API_KEY environment variable is required''),
         Print ''   Get an API key from: https://mcp.programintegrity.org/register''] \<and>
      snd (script env argv get_tools ainvoke s) = 1)"
proof (intro conjI impI)
  assume "truthy (env ''PIA_API_KEY'')"
  then have k: "truthy (mcp_api_key env)"
    by (simp add: mcp_api_key_def getenv_def)
  from main_starts_with_discovery[OF k, of argv get_tools ainvoke s]
  obtain rest where "network_calls (fst (main env argv get_tools ainvoke s)) =
           GetTools (make_client (mcp_url env) (the (mcp_api_key env))) # rest"
    by blast
  then show "take 1 (network_calls (fst (main env argv get_tools ainvoke s))) =
        [GetTools (MultiServerMCPClient
           [(''pia'', Connection ''streamable_http''
                        (case env ''PIA_MCP_URL'' of
                           None \<Rightarrow> ''https://mcp.programintegrity.org''
                         | Some u \<Rightarrow> u)
                        [(''x-api-key'', the (env ''PIA_API_KEY''))])])]"
    by (simp add: make_client_def mcp_url_def mcp_api_key_def getenv_def getenv_default_def)
next
  assume "\<not> truthy (env ''PIA_API_KEY'')"
  then have k: "\<not> truthy (mcp_api_key env)"
    by (simp add: mcp_api_key_def getenv_def)
  then show "fst (script env argv get_tools ainvoke s) =
        [Print (cross_mark @ '' Error: PIA_API_KEY environment variable is required''),
         Print ''   Get an API key from: https://mcp.programintegrity.org/register'']"
    by (simp add: script_def main_def)
  from k show "snd (script env argv get_tools ainvoke s) = 1"
    by (simp add: script_exit main_no_key(1))
qed

text \<open>
  The theorem with the URL unset, with the URL set, and without the access credential.
\<close>

theorem mcp_url_default_witness:
  "take 1 (network_calls (fst (main [''PIA_API_KEY'' \<mapsto> ''k''] [''prog'']
      (\<lambda>c. Inl (LibraryException ''ConnectionError'' ''unreachable''))
      (\<lambda>(s::unit) a r. (Inr (Response None ''ok''), s)) ()))) =
     [GetTools (MultiServerMCPClient
        [(''pia'', Connection ''streamable_http'' ''https://mcp.programintegrity.org''
                     [(''x-api-key'', ''k'')])])]
 \<and> take 1 (network_calls (fst (main [''PIA_API_KEY'' \<mapsto> ''k'', ''PIA_MCP_URL'' \<mapsto> ''http://localhost:8000'']
      [''prog''] (\<lambda>c. Inl (LibraryException ''ConnectionError'' ''unreachable''))
      (\<lambda>(s::unit) a r. (Inr (Response None ''ok''), s)) ()))) =
     [GetTools (MultiServerMCPClient
        [(''pia'', Connection ''streamable_http'' ''http://localhost:8000''
                     [(''x-api-key'', ''k'')])])]
 \<and> snd (script [''PIA_MCP_URL'' \<mapsto> ''http://localhost:8000''] [''prog'']
      (\<lambda>c. Inl (LibraryException ''ConnectionError'' ''unreachable''))
      (\<lambda>(s::unit) a r. (Inr (Response None ''ok''), s)) ()) = 1"
  using mcp_url_default[of "[''PIA_API_KEY'' \<mapsto> ''k'']" "[''prog'']"
          "\<lambda>c. Inl (LibraryException ''ConnectionError'' ''unreachable'')"
          "\<lambda>(s::unit) a r. (Inr (Response None ''ok''), s)" "()"]
        mcp_url_default[of "[''PIA_API_KEY'' \<mapsto> ''k'', ''PIA_MCP_URL'' \<mapsto> ''http://localhost:8000'']"
          "[''prog'']" "\<lambda>c. Inl (LibraryException ''ConnectionError'' ''unreachable'')"
          "\<lambda>(s::unit) a r. (Inr (Response None ''ok''), s)" "()"]
        mcp_url_default[of "[''PIA_MCP_URL'' \<mapsto> ''http://localhost:8000'']"
          "[''prog'']" "\<lambda>c. Inl (LibraryException ''ConnectionError'' ''unreachable'')"
          "\<lambda>(s::unit) a r. (Inr (Response None ''ok''), s)" "()"]
  by simp

text \<open>
  Claim C6 as stated stops a run whose environment has no tool-endpoint URL. Such a run
  discovers the tools at the default URL and invokes the agent.
\<close>

theorem mcp_url_absent_counterexample:
  "network_calls (fst (main [''PIA_API_KEY'' \<mapsto> ''k'', ''OPENAI_API_KEY'' \<mapsto> ''sk-1'']
      [''langchain_mcp_example.py''] (\<lambda>c. Inr [Tool ''search''])
      (\<lambda>(s::unit) a r. (Inr (Response None ''ok''), s)) ())) =
     [GetTools (MultiServerMCPClient
        [(''pia'', Connection ''streamable_http'' ''https://mcp.programintegrity.org''
                     [(''x-api-key'', ''k'')])]),
      AInvoke (Agent (ChatOpenAI ''gpt-4o-mini'' 0 ''sk-1'') [Tool ''search''] system_prompt)
        (Request [ChatMessage ''user'' ''Search for fraud recommendations from GAO''] ''1'')]"
proof -
  let ?e = "[''PIA_API_KEY'' \<mapsto> ''k'', ''OPENAI_API_KEY'' \<mapsto> ''sk-1'']"
  let ?gt = "\<lambda>c::client. Inr [Tool ''search''] :: exception + tool list"
  let ?ok = "\<lambda>(s::unit) (a::agent) (r::request). (Inr (Response None ''ok'') :: exception + response, s)"
  have b: "truthy (mcp_api_key ?e)"
    by (simp add: mcp_api_key_def getenv_def)
  have u: "make_client (mcp_url ?e) (the (mcp_api_key ?e)) =
      MultiServerMCPClient
        [(''pia'', Connection ''streamable_http'' ''https://mcp.programintegrity.org''
                     [(''x-api-key'', ''k'')])]"
    by (simp add: make_client_def mcp_url_def mcp_api_key_def getenv_def getenv_default_def)
  have c: "create_llm ?e (llm_provider ?e) = Inr (ChatOpenAI ''gpt-4o-mini'' 0 ''sk-1'')"
    by (simp add: llm_provider_default create_llm_def getenv_def getenv_default_def)
  show ?thesis
    using main_network_calls[where get_tools = ?gt and ainvoke = ?ok, OF b _ c,
        of "[Tool ''search'']" "[''langchain_mcp_example.py'']" "()"] u
    by (simp add: create_agent_def make_request_def)
qed

section \<open>The query of a run\<close>

text \<open>
  Claim C8. In a run that reaches the queries (access credential present, tools
  discovered, model handle created), command-line arguments after the script's name are
  joined with one space between neighbours, and that string is the content of the one
  user message of the one agent invocation of the run; with no argument the one
  invocation carries the built-in example query.
\<close>

theorem custom_query_from_arguments:
  assumes "truthy (mcp_api_key env)"
    and "get_tools (make_client (mcp_url env) (the (mcp_api_key env))) = Inr tools"
    and "create_llm env (llm_provider env) = Inr m"
  shows "(argv = prog # arg # args \<longrightarrow>
           network_calls (fst (main env argv get_tools ainvoke s)) =
             [GetTools (make_client (mcp_url env) (the (mcp_api_key env))),
              AInvoke (create_agent m tools system_prompt)
                (Request [ChatMessage ''user'' (arg @ concat (map (\<lambda>x. '' '' @ x) args))] ''1'')])
       \<and> (length argv \<le> 1 \<longrightarrow>
           network_calls (fst (main env argv get_tools ainvoke s)) =
             [GetTools (make_client (mcp_url env) (the (mcp_api_key env))),
              AInvoke (create_agent m tools system_prompt)
                (Request [ChatMessage ''user'' ''Search for fraud recommendations from GAO''] ''1'')])"
  using main_network_calls[where get_tools = get_tools and ainvoke = ainvoke, OF assms, of argv s]
  by (auto simp: make_request_def join_concat)

text \<open>
  Three arguments give the query \<^verbatim>\<open>fraud in medicare\<close>; no argument gives the example.
\<close>

theorem custom_query_from_arguments_witness:
  "network_calls (fst (main [''PIA_API_KEY'' \<mapsto> ''k'', ''OPENAI_API_KEY'' \<mapsto> ''sk-1'']
      [''langchain_mcp_example.py'', ''fraud'', ''in'', ''medicare''] (\<lambda>c. Inr [Tool ''search''])
      (\<lambda>(s::unit) a r. (Inr (Response None ''ok''), s)) ())) =
     [GetTools (make_client ''https://mcp.programintegrity.org'' ''k''),
      AInvoke (create_agent (ChatOpenAI ''gpt-4o-mini'' 0 ''sk-1'') [Tool ''search''] system_prompt)
        (Request [ChatMessage ''user'' ''fraud in medicare''] ''1'')]
 \<and> network_calls (fst (main [''PIA_API_KEY'' \<mapsto> ''k'', ''OPENAI_API_KEY'' \<mapsto> ''sk-1'']
      [''langchain_mcp_example.py''] (\<lambda>c. Inr [Tool ''search''])
      (\<lambda>(s::unit) a r. (Inr (Response None ''ok''), s)) ())) =
     [GetTools (make_client ''https://mcp.programintegrity.org'' ''k''),
      AInvoke (create_agent (ChatOpenAI ''gpt-4o-mini'' 0 ''sk-1'') [Tool ''search''] system_prompt)
        (Request [ChatMessage ''user'' ''Search for fraud recommendations from GAO''] ''1'')]"
proof -
  let ?e = "[''PIA_API_KEY'' \<mapsto> ''k'', ''OPENAI_API_KEY'' \<mapsto> ''sk-1'']"
  let ?gt = "\<lambda>c::client. Inr [Tool ''search''] :: exception + tool list"
  let ?ok = "\<lambda>(s::unit) (a::agent) (r::request). (Inr (Response None ''ok'') :: exception + response, s)"
  have b: "truthy (mcp_api_key ?e)"
    by (simp add: mcp_api_key_def getenv_def)
  have u: "mcp_url ?e = ''https://mcp.programintegrity.org''" "the (mcp_api_key ?e) = ''k''"
    by (simp_all add: mcp_url_def mcp_api_key_def getenv_def getenv_default_def)
  have c: "create_llm ?e (llm_provider ?e) = Inr (ChatOpenAI ''gpt-4o-mini'' 0 ''sk-1'')"
    by (simp add: llm_provider_default create_llm_def getenv_def getenv_default_def)
  have g: "?gt (make_client (mcp_url ?e) (the (mcp_api_key ?e))) = Inr [Tool ''search'']"
    by simp
  from custom_query_from_arguments[where get_tools = ?gt and ainvoke = ?ok, OF b g c,
      of "[''langchain_mcp_example.py'', ''fraud'', ''in'', ''medicare'']"
         "''langchain_mcp_example.py''" "''fraud''" "[''in'', ''medicare'']" "()"]
       custom_query_from_arguments[where get_tools = ?gt and ainvoke = ?ok, OF b g c,
      of "[''langchain_mcp_example.py'']" "''x''" "''y''" "[]" "()"]
  show ?thesis using u by simp
qed

section \<open>The provider selector\<close>

text \<open>
  Claim C9. With \<^verbatim>\<open>LLM_PROVIDER\<close> unset the provider is \<^verbatim>\<open>openai\<close>, the first of the
  identities \<^verbatim>\<open>create_llm\<close> has a branch for, and the model is built by the OpenAI
  branch: a \<^verbatim>\<open>ChatOpenAI\<close> handle from \<^verbatim>\<open>OPENAI_API_KEY\<close> and \<^verbatim>\<open>OPENAI_MODEL\<close>, or that
  branch's error when the key is missing; in a run that reaches the agent, the agent
  invoked is the one built around this handle.
\<close>

theorem default_provider_is_openai:
  assumes "env ''LLM_PROVIDER'' = None"
  shows "llm_provider env = ''openai''
       \<and> llm_provider env = hd supported_providers
       \<and> (truthy (env ''OPENAI_API_KEY'') \<longrightarrow>
            create_llm env (llm_provider env) =
              Inr (ChatOpenAI (getenv_default env ''OPENAI_MODEL'' ''gpt-4o-mini'') 0
                     (the (env ''OPENAI_API_KEY''))))
       \<and> (\<not> truthy (env ''OPENAI_API_KEY'') \<longrightarrow>
            create_llm env (llm_provider env) =
              Inl (ValueError ''OPENAI_API_KEY environment variable is required''))
       \<and> (truthy (mcp_api_key env) \<and>
            get_tools (make_client (mcp_url env) (the (mcp_api_key env))) = Inr tools \<and>
            truthy (env ''OPENAI_API_KEY'') \<longrightarrow>
            network_calls (fst (main env argv get_tools ainvoke s)) =
              [GetTools (make_client (mcp_url env) (the (mcp_api_key env))),
               AInvoke (create_agent
                          (ChatOpenAI (getenv_default env ''OPENAI_MODEL'' ''gpt-4o-mini'') 0
                             (the (env ''OPENAI_API_KEY'')))
                          tools system_prompt)
                 (make_request (if length argv > 1 then join '' '' (drop 1 argv)
                                else ''Search for fraud recommendations from GAO''))])"
proof -
  have p: "llm_provider env = ''openai''"
    using assms by (rule llm_provider_default)
  have c: "create_llm env ''openai'' =
      (if truthy (env ''OPENAI_API_KEY'') then
         Inr (ChatOpenAI (getenv_default env ''OPENAI_MODEL'' ''gpt-4o-mini'') 0
               (the (env ''OPENAI_API_KEY'')))
       else Inl (ValueError ''OPENAI_API_KEY environment variable is required''))"
    by (simp add: create_llm_def getenv_def)
  have n: "network_calls (fst (main env argv get_tools ainvoke s)) =
              [GetTools (make_client (mcp_url env) (the (mcp_api_key env))),
               AInvoke (create_agent
                          (ChatOpenAI (getenv_default env ''OPENAI_MODEL'' ''gpt-4o-mini'') 0
                             (the (env ''OPENAI_API_KEY'')))
                          tools system_prompt)
                 (make_request (if length argv > 1 then join '' '' (drop 1 argv)
                                else ''Search for fraud recommendations from GAO''))]"
    if "truthy (mcp_api_key env)"
      and "get_tools (make_client (mcp_url env) (the (mcp_api_key env))) = Inr tools"
      and "truthy (env ''OPENAI_API_KEY'')"
  proof -
    from that(3) p c have "create_llm env (llm_provider env) =
        Inr (ChatOpenAI (getenv_default env ''OPENAI_MODEL'' ''gpt-4o-mini'') 0
               (the (env ''OPENAI_API_KEY'')))"
      by simp
    with that(1,2) show ?thesis
      by (rule main_network_calls[where get_tools = get_tools])
  qed
  from p c n show ?thesis
    by (simp add: supported_providers_def)
qed

text \<open>
  An environment with the OpenAI key and a model name, and one with only another
  provider's key.
\<close>

theorem default_provider_is_openai_witness:
  "llm_provider [''PIA_API_KEY'' \<mapsto> ''k'', ''OPENAI_API_KEY'' \<mapsto> ''sk-1'', ''OPENAI_MODEL'' \<mapsto> ''gpt-4o'']
     = ''openai''
 \<and> create_llm [''PIA_API_KEY'' \<mapsto> ''k'', ''OPENAI_API_KEY'' \<mapsto> ''sk-1'', ''OPENAI_MODEL'' \<mapsto> ''gpt-4o'']
      (llm_provider [''PIA_API_KEY'' \<mapsto> ''k'', ''OPENAI_API_KEY'' \<mapsto> ''sk-1'', ''OPENAI_MODEL'' \<mapsto> ''gpt-4o''])
     = Inr (ChatOpenAI ''gpt-4o'' 0 ''sk-1'')
 \<and> create_llm [''ANTHROPIC_API_KEY'' \<mapsto> ''an-1''] (llm_provider [''ANTHROPIC_API_KEY'' \<mapsto> ''an-1''])
     = Inl (ValueError ''OPENAI_API_KEY environment variable is required'')
 \<and> network_calls (fst (main
        [''PIA_API_KEY'' \<mapsto> ''k'', ''OPENAI_API_KEY'' \<mapsto> ''sk-1'', ''OPENAI_MODEL'' \<mapsto> ''gpt-4o'']
        [''prog''] (\<lambda>c. Inr []) (\<lambda>(s::unit) a r. (Inr (Response None ''ok''), s)) ())) =
     [GetTools (make_client ''https://mcp.programintegrity.org'' ''k''),
      AInvoke (create_agent (ChatOpenAI ''gpt-4o'' 0 ''sk-1'') [] system_prompt)
        (make_request ''Search for fraud recommendations from GAO'')]"
proof -
  let ?e = "[''PIA_API_KEY'' \<mapsto> ''k'', ''OPENAI_API_KEY'' \<mapsto> ''sk-1'', ''OPENAI_MODEL'' \<mapsto> ''gpt-4o'']"
  let ?f = "[''ANTHROPIC_API_KEY'' \<mapsto> ''an-1'']"
  have a: "?e ''LLM_PROVIDER'' = None" "?f ''LLM_PROVIDER'' = None"
    by simp_all
  have b: "truthy (mcp_api_key ?e)"
    by (simp add: mcp_api_key_def getenv_def)
  have u: "mcp_url ?e = ''https://mcp.programintegrity.org''" "the (mcp_api_key ?e) = ''k''"
    by (simp_all add: mcp_url_def mcp_api_key_def getenv_def getenv_default_def)
  from default_provider_is_openai[of ?e "\<lambda>c. Inr []" "[]" "[''prog'']"
      "\<lambda>(s::unit) a r. (Inr (Response None ''ok''), s)" "()", OF a(1)]
    default_provider_is_openai[of ?f "\<lambda>c. Inr []" "[]" "[''prog'']"
      "\<lambda>(s::unit) a r. (Inr (Response None ''ok''), s)" "()", OF a(2)]
    b u
  show ?thesis
    by (auto simp: getenv_default_def)
qed



end
